theory Spec2Isabelle
  imports Main "HOL-Library.Sublist"
begin

section \<open>fw-heudiconv: the curation command (fw\_heudiconv/cli/curate.py)\<close>

text \<open>
  The module is an orchestration script: it queries a Flywheel server, hands the
  sequence infos to a heudiconv heuristic and calls \<^verbatim>\<open>apply_heuristic\<close> once per
  entry of the heuristic's result. Everything it calls (the Flywheel client, the query
  layer, the heuristic loader, the heuristic itself and the apply layer) lives outside
  the module, so the embedding takes those collaborators as parameters: each one is a
  function on an abstract world state \<open>'w\<close> (the remote server and the process) that
  returns the new world and either a value or the exception it raised. The embedding
  records every collaborator call and every \<^verbatim>\<open>logger.info\<close> message, in order, in
  a trace of events.
\<close>

subsection \<open>Data\<close>

text \<open>
  Exceptions. \<open>TypeError\<close> and \<open>AssertionError\<close> are the two the module's own
  statements can raise; \<open>Raised name\<close> is an exception of class \<open>name\<close> raised inside
  a collaborator.
\<close>

datatype error = TypeError | AssertionError | Raised string

text \<open>A flywheel project, as far as the module reads it: \<^verbatim>\<open>project_obj['label']\<close>, \<^verbatim>\<open>project_obj.id\<close>.\<close>

record project =
  p_label :: string
  p_id :: string

text \<open>A flywheel session: \<^verbatim>\<open>s.label\<close>, \<^verbatim>\<open>s.id\<close>, \<^verbatim>\<open>s.subject['label']\<close>.\<close>

record subject =
  subj_label :: string

record session =
  s_label :: string
  s_id :: string
  s_subject :: subject

text \<open>
  The trace. \<open>'c\<close> is the client handle, \<open>'s\<close> a SeqInfo, \<open>'k\<close> a destination key of the
  heuristic, \<open>'v\<close> the value the heuristic maps a key to (its matched sequences), \<open>'i\<close>
  one entry of an intention list.
\<close>

datatype ('c, 's, 'k, 'v, 'i) event =
    LogInfo string
  | NewClient
  | FindFirst 'c string
  | GetProjectSessions 'c string
  | GetSeqInfo 'c string "session list"
  | LoadHeuristic string
  | Infotodict "'s list"
  | ApplyHeuristic 'c 'k 'v bool "'i list"

text \<open>
  A loaded heuristic module: its \<^verbatim>\<open>infotodict\<close> function, whose result dict is the
  list of its items in insertion order, and its \<^verbatim>\<open>IntendedFor\<close> attribute, a dict
  when the module has one (\<open>None\<close> when \<^verbatim>\<open>hasattr\<close> is false).
\<close>

record ('w, 's, 'k, 'v, 'i) heuristic =
  infotodict :: "'s list \<Rightarrow> 'w \<Rightarrow> (error + ('k \<times> 'v) list) \<times> 'w"
  IntendedFor :: "('k \<rightharpoonup> 'i list) option"

text \<open>
  The collaborators: \<^verbatim>\<open>flywheel.Client()\<close> and the truth value of the object it
  returns, \<^verbatim>\<open>client.projects.find_first\<close> (which returns a project or \<^verbatim>\<open>None\<close>),
  \<^verbatim>\<open>client.get_project_sessions\<close>, \<^verbatim>\<open>query.get_seq_info\<close>,
  \<^verbatim>\<open>heudiconv.utils.load_heuristic\<close> and \<^verbatim>\<open>convert.apply_heuristic\<close>.

  \<open>pretty_string_seqinfo\<close> is the module's own function of lines 13 to 22, one
  \<^verbatim>\<open>str.format\<close> over nine attributes of a SeqInfo with the float formats
  \<^verbatim>\<open>{tr:.2f}\<close> and \<^verbatim>\<open>{te:.4f}\<close>. It returns the text or raises (an attribute is
  missing, or TR or TE is not a number). Formatting floats is outside this embedding,
  so the function is a parameter too; it does not touch the world.
\<close>

record ('w, 'c, 's, 'k, 'v, 'i) env =
  flywheel_Client :: "'w \<Rightarrow> (error + 'c) \<times> 'w"
  client_bool :: "'c \<Rightarrow> bool"
  find_first :: "'c \<Rightarrow> string \<Rightarrow> 'w \<Rightarrow> (error + project option) \<times> 'w"
  get_project_sessions :: "'c \<Rightarrow> string \<Rightarrow> 'w \<Rightarrow> (error + session list) \<times> 'w"
  get_seq_info :: "'c \<Rightarrow> string \<Rightarrow> session list \<Rightarrow> 'w \<Rightarrow> (error + 's list) \<times> 'w"
  pretty_string_seqinfo :: "'s \<Rightarrow> error + string"
  load_heuristic :: "string \<Rightarrow> 'w \<Rightarrow> (error + ('w, 's, 'k, 'v, 'i) heuristic) \<times> 'w"
  apply_heuristic :: "'c \<Rightarrow> 'k \<Rightarrow> 'v \<Rightarrow> bool \<Rightarrow> 'i list \<Rightarrow> 'w \<Rightarrow> (error + unit) \<times> 'w"

subsection \<open>The label filters (convert\_to\_bids, lines 47 to 50)\<close>

text \<open>
  \<^verbatim>\<open>if subject_labels:\<close> tests the truth value of the argument: \<^verbatim>\<open>None\<close> and the
  empty list are false, a list with an element is true.
\<close>

fun truthy :: "string list option \<Rightarrow> bool" where
  "truthy None = False"
| "truthy (Some labels) = (labels \<noteq> [])"

text \<open>\<^verbatim>\<open>x in labels\<close>; only evaluated when the labels are a list.\<close>

fun py_in :: "string \<Rightarrow> string list option \<Rightarrow> bool" where
  "py_in x None = False"
| "py_in x (Some labels) = (x \<in> set labels)"

text \<open>
  \<^verbatim>\<open>
  if subject_labels:
      sessions = [s for s in sessions if s.subject['label'] in subject_labels]
  \<close>
\<close>

definition subject_filter :: "string list option \<Rightarrow> session list \<Rightarrow> session list" where
  "subject_filter subject_labels sessions =
     (if truthy subject_labels
      then filter (\<lambda>s. py_in (subj_label (s_subject s)) subject_labels) sessions
      else sessions)"

text \<open>
  \<^verbatim>\<open>
  if session_labels:
      sessions = [s for s in sessions if s.label in session_labels]
  \<close>
\<close>

definition session_filter :: "string list option \<Rightarrow> session list \<Rightarrow> session list" where
  "session_filter session_labels sessions =
     (if truthy session_labels
      then filter (\<lambda>s. py_in (s_label s) session_labels) sessions
      else sessions)"

subsection \<open>The intention map (convert\_to\_bids, lines 70 to 74)\<close>

text \<open>
  \<^verbatim>\<open>intention_map[key]\<close> on a \<^verbatim>\<open>defaultdict(list)\<close>: the stored value when the key is
  present; otherwise a new empty list, which is stored under the key and returned.
\<close>

definition defaultdict_getitem :: "('k \<rightharpoonup> 'i list) \<Rightarrow> 'k \<Rightarrow> 'i list \<times> ('k \<rightharpoonup> 'i list)" where
  "defaultdict_getitem m key =
     (case m key of
        Some x \<Rightarrow> (x, m)
      | None \<Rightarrow> ([], m(key \<mapsto> [])))"

text \<open>\<^verbatim>\<open>intention_map.update(d)\<close> for a dict \<open>d\<close>: the entries of \<open>d\<close> win.\<close>

definition dict_update :: "('k \<rightharpoonup> 'i list) \<Rightarrow> ('k \<rightharpoonup> 'i list) \<Rightarrow> ('k \<rightharpoonup> 'i list)" where
  "dict_update m d = m ++ d"

subsection \<open>The apply loop (convert\_to\_bids, lines 76 and 77)\<close>

text \<open>
  \<^verbatim>\<open>
  for key, val in to_rename.items():
      apply_heuristic(client, key, val, dry_run, intention_map[key])
  \<close>
  The argument \<^verbatim>\<open>intention_map[key]\<close> is evaluated before the call. An exception of
  \<^verbatim>\<open>apply_heuristic\<close> ends the loop and the function: nothing catches it.
\<close>

fun apply_loop ::
  "('w, 'c, 's, 'k, 'v, 'i) env \<Rightarrow> 'c \<Rightarrow> bool \<Rightarrow> ('k \<rightharpoonup> 'i list) \<Rightarrow> ('k \<times> 'v) list \<Rightarrow> 'w
   \<Rightarrow> (error + unit) \<times> ('c, 's, 'k, 'v, 'i) event list \<times> 'w" where
  "apply_loop E client dry_run intention_map [] w = (Inr (), [], w)"
| "apply_loop E client dry_run intention_map ((key, val) # items) w =
     (case defaultdict_getitem intention_map key of
        (intentions, intention_map') \<Rightarrow>
          (case apply_heuristic E client key val dry_run intentions w of
             (Inl e, w') \<Rightarrow> (Inl e, [ApplyHeuristic client key val dry_run intentions], w')
           | (Inr u, w') \<Rightarrow>
               (case apply_loop E client dry_run intention_map' items w' of
                  (r, evs, w'') \<Rightarrow>
                    (r, ApplyHeuristic client key val dry_run intentions # evs, w''))))"

subsection \<open>convert\_to\_bids\<close>

text \<open>
  A list comprehension over calls that may raise, such as
  \<^verbatim>\<open>[pretty_string_seqinfo(seq) for seq in seq_infos]\<close>, raises the first exception
  in list order.
\<close>

fun first_error :: "(error + 'a) list \<Rightarrow> error option" where
  "first_error [] = None"
| "first_error (Inl e # rs) = Some e"
| "first_error (Inr x # rs) = first_error rs"

text \<open>\<^verbatim>\<open>'label="{}"'.format(project_label)\<close>; the character \<open>0x22\<close> is the double quote.\<close>

definition label_query :: "string \<Rightarrow> string" where
  "label_query project_label = ''label='' @ [CHR 0x22] @ project_label @ [CHR 0x22]"

text \<open>
  Lines 42 to 65: the queries, the loading of the heuristic and its call. The result is
  the loaded heuristic with the dict \<^verbatim>\<open>to_rename\<close>, or the exception that ended the
  function. The arguments of a \<^verbatim>\<open>logger.debug\<close> call are evaluated whatever the
  log level: line 44 evaluates \<^verbatim>\<open>project_obj['label']\<close>, which on \<^verbatim>\<open>None\<close> is a
  \<^verbatim>\<open>TypeError\<close>, and line 58 formats every SeqInfo. The \<^verbatim>\<open>logger.debug\<close>
  messages themselves are not part of the trace (they print only under
  \<^verbatim>\<open>--verbose\<close>); formatting the sessions on line 52 reads a label and an id and
  does not raise.
\<close>

definition query_and_classify ::
  "('w, 'c, 's, 'k, 'v, 'i) env \<Rightarrow> 'c \<Rightarrow> string \<Rightarrow> string \<Rightarrow> string list option
   \<Rightarrow> string list option \<Rightarrow> 'w
   \<Rightarrow> (error + ('w, 's, 'k, 'v, 'i) heuristic \<times> ('k \<times> 'v) list)
      \<times> ('c, 's, 'k, 'v, 'i) event list \<times> 'w" where
  "query_and_classify E client project_label heuristic_path subject_labels session_labels w =
     (let t1 = [LogInfo ''Querying Flywheel server...'',
                FindFirst client (label_query project_label)] in
      case find_first E client (label_query project_label) w of
        (Inl e, w1) \<Rightarrow> (Inl e, t1, w1)
      | (Inr None, w1) \<Rightarrow> (Inl TypeError, t1, w1)
      | (Inr (Some project_obj), w1) \<Rightarrow>
     (let t2 = t1 @ [GetProjectSessions client (p_id project_obj)] in
      case get_project_sessions E client (p_id project_obj) w1 of
        (Inl e, w2) \<Rightarrow> (Inl e, t2, w2)
      | (Inr fetched, w2) \<Rightarrow>
     (let sessions = session_filter session_labels (subject_filter subject_labels fetched);
          t3 = t2 @ [GetSeqInfo client project_label sessions] in
      case get_seq_info E client project_label sessions w2 of
        (Inl e, w3) \<Rightarrow> (Inl e, t3, w3)
      | (Inr seq_infos, w3) \<Rightarrow>
     (case first_error (map (pretty_string_seqinfo E) seq_infos) of
        Some e \<Rightarrow> (Inl e, t3, w3)
      | None \<Rightarrow>
     (let t4 = t3 @ [LogInfo ''Loading heuristic file...'', LoadHeuristic heuristic_path] in
      case load_heuristic E heuristic_path w3 of
        (Inl e, w4) \<Rightarrow> (Inl e, t4, w4)
      | (Inr heuristic, w4) \<Rightarrow>
     (let t5 = t4 @ [LogInfo ''Applying heuristic to query results...'',
                     Infotodict seq_infos] in
      case infotodict heuristic seq_infos w4 of
        (Inl e, w5) \<Rightarrow> (Inl e, t5, w5)
      | (Inr to_rename, w5) \<Rightarrow> (Inr (heuristic, to_rename), t5, w5)))))))"

text \<open>
  Lines 67 to 77: the one branch on \<^verbatim>\<open>dry_run\<close> (a log message), the intention map
  and the loop.
  \<^verbatim>\<open>
  if not dry_run:
      logger.info("Applying changes to files...")
  intention_map = defaultdict(list)
  if hasattr(heuristic, "IntendedFor"):
      logger.info("Updating IntendedFor fields based on heuristic file")
      intention_map.update(heuristic.IntendedFor)
  \<close>
\<close>

definition apply_changes ::
  "('w, 'c, 's, 'k, 'v, 'i) env \<Rightarrow> 'c \<Rightarrow> bool \<Rightarrow> ('w, 's, 'k, 'v, 'i) heuristic
   \<Rightarrow> ('k \<times> 'v) list \<Rightarrow> 'w
   \<Rightarrow> (error + unit) \<times> ('c, 's, 'k, 'v, 'i) event list \<times> 'w" where
  "apply_changes E client dry_run heuristic to_rename w =
     (let t6 = (if \<not> dry_run then [LogInfo ''Applying changes to files...''] else []);
          (intention_map, t7) =
            (case IntendedFor heuristic of
               Some d \<Rightarrow>
                 (dict_update Map.empty d,
                  [LogInfo ''Updating IntendedFor fields based on heuristic file''])
             | None \<Rightarrow> (Map.empty, []))
      in case apply_loop E client dry_run intention_map to_rename w of
           (r, evs, w') \<Rightarrow> (r, t6 @ t7 @ evs, w'))"

definition convert_to_bids ::
  "('w, 'c, 's, 'k, 'v, 'i) env \<Rightarrow> 'c \<Rightarrow> string \<Rightarrow> string \<Rightarrow> string list option
   \<Rightarrow> string list option \<Rightarrow> bool \<Rightarrow> 'w
   \<Rightarrow> (error + unit) \<times> ('c, 's, 'k, 'v, 'i) event list \<times> 'w" where
  "convert_to_bids E client project_label heuristic_path subject_labels session_labels dry_run w =
     (case query_and_classify E client project_label heuristic_path subject_labels
             session_labels w of
        (Inl e, t, w5) \<Rightarrow> (Inl e, t, w5)
      | (Inr (heuristic, to_rename), t, w5) \<Rightarrow>
          (case apply_changes E client dry_run heuristic to_rename w5 of
             (r, t', w6) \<Rightarrow> (r, t @ t', w6)))"

subsection \<open>The command line (get\_parser, main)\<close>

text \<open>
  The arguments \<^verbatim>\<open>get_parser\<close> declares, as data: the option string, \<^verbatim>\<open>nargs\<close>
  (\<open>None\<close> when not given), \<^verbatim>\<open>required\<close>, \<^verbatim>\<open>action\<close> (\<open>None\<close> when not given) and
  the default (\<open>None\<close> is Python's \<^verbatim>\<open>None\<close>, also when not given).
\<close>

record argument =
  opt_string :: string
  opt_help :: string
  opt_nargs :: "string option"
  opt_required :: bool
  opt_action :: "string option"
  opt_default :: "bool option"

definition get_parser :: "argument list" where
  "get_parser =
     [\<lparr>opt_string = ''--project'', opt_help = ''The project in flywheel'',
       opt_nargs = Some ''+'', opt_required = True, opt_action = None, opt_default = None\<rparr>,
      \<lparr>opt_string = ''--heuristic'', opt_help = ''Path to a heudiconv-style heuristic file'',
       opt_nargs = None, opt_required = True, opt_action = None, opt_default = None\<rparr>,
      \<lparr>opt_string = ''--subject'', opt_help = ''The subject label(s)'',
       opt_nargs = Some ''+'', opt_required = False, opt_action = None, opt_default = None\<rparr>,
      \<lparr>opt_string = ''--session'', opt_help = ''The session label(s)'',
       opt_nargs = Some ''+'', opt_required = False, opt_action = None, opt_default = None\<rparr>,
      \<lparr>opt_string = ''--verbose'', opt_help = ''Print ongoing messages of progress'',
       opt_nargs = None, opt_required = False, opt_action = Some ''store_true'',
       opt_default = Some False\<rparr>,
      \<lparr>opt_string = ''--dry_run'', opt_help = ''Don't apply changes'',
       opt_nargs = None, opt_required = False, opt_action = Some ''store_true'',
       opt_default = Some False\<rparr>]"

text \<open>The namespace \<^verbatim>\<open>parser.parse_args()\<close> returns for that parser.\<close>

record args =
  args_project :: "string list"
  args_heuristic :: string
  args_subject :: "string list option"
  args_session :: "string list option"
  args_verbose :: bool
  args_dry_run :: bool

text \<open>\<^verbatim>\<open>sep.join(xs)\<close> on a list of strings.\<close>

fun join :: "string \<Rightarrow> string list \<Rightarrow> string" where
  "join sep [] = []"
| "join sep [x] = x"
| "join sep (x # y # ys) = x @ sep @ join sep (y # ys)"

text \<open>
  \<^verbatim>\<open>main\<close>, from the parsed arguments on: parsing itself is argparse's. The
  \<^verbatim>\<open>--verbose\<close> flag only sets the log level.
\<close>

definition main ::
  "('w, 'c, 's, 'k, 'v, 'i) env \<Rightarrow> args \<Rightarrow> 'w
   \<Rightarrow> (error + unit) \<times> ('c, 's, 'k, 'v, 'i) event list \<times> 'w" where
  "main E args w =
     (case flywheel_Client E w of
        (Inl e, w0) \<Rightarrow> (Inl e, [NewClient], w0)
      | (Inr fw, w0) \<Rightarrow>
          if \<not> client_bool E fw then (Inl AssertionError, [NewClient], w0)
          else
            (let project_label = join '' '' (args_project args) in
             case convert_to_bids E fw project_label (args_heuristic args)
                    (args_subject args) (args_session args) (args_dry_run args) w0 of
               (r, t, w') \<Rightarrow> (r, NewClient # t, w')))"

subsection \<open>Reading a run\<close>

text \<open>
  A run is the triple of its outcome (the exception that ended it, or a normal return),
  its trace and the world it leaves.
\<close>

definition outcome :: "'r \<times> 't \<times> 'w \<Rightarrow> 'r" where
  "outcome run = fst run"

definition trace :: "'r \<times> 't \<times> 'w \<Rightarrow> 't" where
  "trace run = fst (snd run)"

definition world :: "'r \<times> 't \<times> 'w \<Rightarrow> 'w" where
  "world run = snd (snd run)"

fun is_apply :: "('c, 's, 'k, 'v, 'i) event \<Rightarrow> bool" where
  "is_apply (ApplyHeuristic c k v d i) = True"
| "is_apply _ = False"

fun is_infotodict :: "('c, 's, 'k, 'v, 'i) event \<Rightarrow> bool" where
  "is_infotodict (Infotodict seqs) = True"
| "is_infotodict _ = False"

fun is_session_query :: "('c, 's, 'k, 'v, 'i) event \<Rightarrow> bool" where
  "is_session_query (GetProjectSessions c p) = True"
| "is_session_query (GetSeqInfo c p ss) = True"
| "is_session_query _ = False"

text \<open>The calls of \<^verbatim>\<open>apply_heuristic\<close> in a trace, in order.\<close>

definition apply_calls :: "('c, 's, 'k, 'v, 'i) event list \<Rightarrow> ('c, 's, 'k, 'v, 'i) event list" where
  "apply_calls t = filter is_apply t"

text \<open>An event with the dry-run flag of an apply call blanked, to compare two runs.\<close>

fun erase_flag :: "('c, 's, 'k, 'v, 'i) event \<Rightarrow> ('c, 's, 'k, 'v, 'i) event" where
  "erase_flag (ApplyHeuristic c k v d i) = ApplyHeuristic c k v False i"
| "erase_flag ev = ev"

text \<open>What a lookup in a \<^verbatim>\<open>defaultdict(list)\<close> returns, without the store.\<close>

definition lookup_default :: "('k \<rightharpoonup> 'i list) \<Rightarrow> 'k \<Rightarrow> 'i list" where
  "lookup_default m key = (case m key of Some x \<Rightarrow> x | None \<Rightarrow> [])"

definition call_of ::
  "'c \<Rightarrow> bool \<Rightarrow> ('k \<rightharpoonup> 'i list) \<Rightarrow> 'k \<times> 'v \<Rightarrow> ('c, 's, 'k, 'v, 'i) event" where
  "call_of c d m = (\<lambda>(k, v). ApplyHeuristic c k v d (lookup_default m k))"

text \<open>
  The intention list of a destination key in the specification's words: the entry of
  the heuristic's \<open>IntendedFor\<close> mapping when the heuristic has the attribute and the
  mapping has the key, the empty list otherwise.
\<close>

definition spec_intentions :: "('w, 's, 'k, 'v, 'i) heuristic \<Rightarrow> 'k \<Rightarrow> 'i list" where
  "spec_intentions h key =
     (case IntendedFor h of
        None \<Rightarrow> []
      | Some d \<Rightarrow> (case d key of None \<Rightarrow> [] | Some x \<Rightarrow> x))"

text \<open>The apply call the specification prescribes for one item of the heuristic's result.\<close>

definition spec_call ::
  "'c \<Rightarrow> bool \<Rightarrow> ('w, 's, 'k, 'v, 'i) heuristic \<Rightarrow> 'k \<times> 'v \<Rightarrow> ('c, 's, 'k, 'v, 'i) event" where
  "spec_call client dry_run h =
     (\<lambda>(key, val). ApplyHeuristic client key val dry_run (spec_intentions h key))"

text \<open>The intention map and the log messages of lines 67 to 74, named for the proofs.\<close>

definition intention_map_of :: "('w, 's, 'k, 'v, 'i) heuristic \<Rightarrow> ('k \<rightharpoonup> 'i list)" where
  "intention_map_of h =
     (case IntendedFor h of Some d \<Rightarrow> dict_update Map.empty d | None \<Rightarrow> Map.empty)"

definition info_messages ::
  "bool \<Rightarrow> ('w, 's, 'k, 'v, 'i) heuristic \<Rightarrow> ('c, 's, 'k, 'v, 'i) event list" where
  "info_messages dry_run h =
     (if \<not> dry_run then [LogInfo ''Applying changes to files...''] else []) @
     (case IntendedFor h of
        Some d \<Rightarrow> [LogInfo ''Updating IntendedFor fields based on heuristic file'']
      | None \<Rightarrow> [])"

subsection \<open>A concrete study\<close>

text \<open>
  Project "Study A" with two sessions, sub-01/ses-1 and sub-02/ses-1; a heuristic that
  classifies into two keys and declares \<open>IntendedFor\<close> for the first; a server that
  rejects the write for the second key. The world counts the remote writes. A label
  that matches no project makes \<^verbatim>\<open>find_first\<close> return \<^verbatim>\<open>None\<close>, as the flywheel
  SDK's finder does.
\<close>

definition demo_sessions :: "session list" where
  "demo_sessions =
     [\<lparr>s_label = ''ses-1'', s_id = ''s1'', s_subject = \<lparr>subj_label = ''sub-01''\<rparr>\<rparr>,
      \<lparr>s_label = ''ses-1'', s_id = ''s2'', s_subject = \<lparr>subj_label = ''sub-02''\<rparr>\<rparr>]"

definition demo_items :: "(string \<times> string list) list" where
  "demo_items = [(''key1'', [''seqA'']), (''key2'', [''seqB'', ''seqC''])]"

definition demo_heuristic :: "(nat, string, string, string list, string) heuristic" where
  "demo_heuristic =
     \<lparr>infotodict = (\<lambda>seq_infos w. (Inr demo_items, w)),
      IntendedFor = Some [''key1'' \<mapsto> [''ref1'']]\<rparr>"

definition demo_env :: "(nat, nat, string, string, string list, string) env" where
  "demo_env =
     \<lparr>flywheel_Client = (\<lambda>w. (Inr 7, w)),
      client_bool = (\<lambda>c. True),
      find_first = (\<lambda>c q w.
        (if q = label_query ''Study A''
         then Inr (Some \<lparr>p_label = ''Study A'', p_id = ''p1''\<rparr>) else Inr None, w)),
      get_project_sessions = (\<lambda>c pid w. (Inr demo_sessions, w)),
      get_seq_info = (\<lambda>c pl ss w. (Inr (map s_id ss), w)),
      pretty_string_seqinfo = (\<lambda>seq. Inr seq),
      load_heuristic = (\<lambda>path w. (Inr demo_heuristic, w)),
      apply_heuristic = (\<lambda>c k v dry_run i w.
        if dry_run then (Inr (), w)
        else if k = ''key2'' then (Inl (Raised ''ApiException''), w)
        else (Inr (), Suc w))\<rparr>"

subsection \<open>The loop, one step at a time\<close>

lemma getitem_fst: "fst (defaultdict_getitem m k) = lookup_default m k"
  by (simp add: defaultdict_getitem_def lookup_default_def split: option.splits)

lemma getitem_snd: "lookup_default (snd (defaultdict_getitem m k)) = lookup_default m"
  by (auto simp: defaultdict_getitem_def lookup_default_def fun_eq_iff split: option.splits)

lemma apply_loop_cong:
  "\<forall>k \<in> fst ` set items. lookup_default m k = lookup_default m' k \<Longrightarrow>
   apply_loop E c d m items w = apply_loop E c d m' items w"
proof (induction items arbitrary: m m' w)
  case Nil
  then show ?case by simp
next
  case (Cons kv items)
  obtain k v where kv: "kv = (k, v)" by (cases kv)
  obtain i1 m1 where g1: "defaultdict_getitem m k = (i1, m1)" by (cases "defaultdict_getitem m k")
  obtain i2 m2 where g2: "defaultdict_getitem m' k = (i2, m2)" by (cases "defaultdict_getitem m' k")
  have i: "i1 = i2" using g1 g2 Cons.prems kv getitem_fst[of m k] getitem_fst[of m' k] by simp
  have "\<forall>k \<in> fst ` set items. lookup_default m1 k = lookup_default m2 k"
    using Cons.prems kv g1 g2 getitem_snd[of m k] getitem_snd[of m' k] by simp
  then have "\<And>w. apply_loop E c d m1 items w = apply_loop E c d m2 items w"
    using Cons.IH by blast
  then show ?case using kv g1 g2 i by (simp split: prod.splits sum.splits)
qed

lemma apply_loop_step:
  "apply_loop E c d m ((k, v) # items) w =
     (case apply_heuristic E c k v d (lookup_default m k) w of
        (Inl e, w') \<Rightarrow> (Inl e, [ApplyHeuristic c k v d (lookup_default m k)], w')
      | (Inr u, w') \<Rightarrow>
          (case apply_loop E c d m items w' of
             (r, evs, w'') \<Rightarrow> (r, ApplyHeuristic c k v d (lookup_default m k) # evs, w'')))"
proof -
  obtain i1 m1 where g1: "defaultdict_getitem m k = (i1, m1)" by (cases "defaultdict_getitem m k")
  have i: "i1 = lookup_default m k" using g1 getitem_fst[of m k] by simp
  have "\<And>w. apply_loop E c d m1 items w = apply_loop E c d m items w"
    using apply_loop_cong[of items m1 m] g1 getitem_snd[of m k] by simp
  then show ?thesis using g1 i by (simp split: prod.splits sum.splits)
qed

lemma apply_loop_append:
  "apply_loop E c d m (xs @ ys) w =
     (case apply_loop E c d m xs w of
        (Inl e, t, w1) \<Rightarrow> (Inl e, t, w1)
      | (Inr u, t, w1) \<Rightarrow>
          (case apply_loop E c d m ys w1 of (r, t', w2) \<Rightarrow> (r, t @ t', w2)))"
proof (induction xs arbitrary: w)
  case Nil
  then show ?case by (simp split: prod.splits)
next
  case (Cons kv xs)
  obtain k v where kv: "kv = (k, v)" by (cases kv)
  show ?case unfolding kv append_Cons apply_loop_step
    by (simp add: Cons.IH split: prod.splits sum.splits)
qed


lemma apply_loop_trace:
  "apply_loop E c d m items w = (r, t, w') \<Longrightarrow>
     prefix t (map (call_of c d m) items) \<and>
     (r = Inr () \<longrightarrow> t = map (call_of c d m) items)"
proof (induction items arbitrary: w r t w')
  case Nil
  then show ?case by simp
next
  case (Cons kv items)
  obtain k v where kv: "kv = (k, v)" by (cases kv)
  show ?case using Cons.prems unfolding kv apply_loop_step
    by (auto simp: call_of_def split: prod.splits sum.splits dest: Cons.IH)
qed



lemma lookup_intention_map_of: "lookup_default (intention_map_of h) = spec_intentions h"
  by (auto simp: lookup_default_def intention_map_of_def spec_intentions_def dict_update_def
      fun_eq_iff split: option.splits)

lemma call_of_spec: "call_of c d (intention_map_of h) = spec_call c d h"
  by (simp add: call_of_def spec_call_def lookup_intention_map_of)

lemma apply_changes_loop:
  "apply_changes E c d h items w =
     (case apply_loop E c d (intention_map_of h) items w of
        (r, evs, w') \<Rightarrow> (r, info_messages d h @ evs, w'))"
  by (simp add: apply_changes_def intention_map_of_def info_messages_def
      split: option.splits prod.splits)

lemma convert_to_bids_classified:
  assumes "query_and_classify E c pl hp subl sesl w = (Inr (h, items), t, w5)"
  shows "convert_to_bids E c pl hp subl sesl d w =
     (case apply_loop E c d (intention_map_of h) items w5 of
        (r, evs, w') \<Rightarrow> (r, t @ info_messages d h @ evs, w'))"
  using assms by (simp add: convert_to_bids_def apply_changes_loop split: prod.splits)

lemma query_trace_shape:
  assumes "query_and_classify E c pl hp subl sesl w = (r, t, w5)"
  shows "filter is_apply t = [] \<and> length (filter is_infotodict t) \<le> 1 \<and>
         (isl r \<or> length (filter is_infotodict t) = 1) \<and>
         take 2 t = [LogInfo ''Querying Flywheel server...'', FindFirst c (label_query pl)]"
  using assms unfolding query_and_classify_def Let_def
  by (auto split: prod.splits sum.splits option.splits)

lemma info_messages_no_calls:
  "filter is_apply (info_messages d h) = [] \<and> filter is_infotodict (info_messages d h) = []"
  by (simp add: info_messages_def split: option.splits)

lemma spec_call_kind: "is_apply (spec_call c d h kv) \<and> \<not> is_infotodict (spec_call c d h kv)"
  by (cases kv) (simp add: spec_call_def)

lemma prefix_calls:
  assumes "prefix evs (map (spec_call c d h) items)"
  shows "filter is_apply evs = evs \<and> filter is_infotodict evs = []"
proof -
  have "set evs \<subseteq> set (map (spec_call c d h) items)"
    using assms by (rule set_mono_prefix)
  then have "\<forall>ev \<in> set evs. is_apply ev \<and> \<not> is_infotodict ev"
    using spec_call_kind by fastforce
  then show ?thesis by (simp add: filter_empty_conv)
qed

subsection \<open>The concrete study, evaluated\<close>

lemma demo_query:
  "query_and_classify demo_env 7 ''Study A'' ''heur.py'' None None 0 =
     (Inr (demo_heuristic, demo_items),
      [LogInfo ''Querying Flywheel server...'', FindFirst 7 (label_query ''Study A''),
       GetProjectSessions 7 ''p1'', GetSeqInfo 7 ''Study A'' demo_sessions,
       LogInfo ''Loading heuristic file...'', LoadHeuristic ''heur.py'',
       LogInfo ''Applying heuristic to query results...'', Infotodict [''s1'', ''s2'']], 0)"
  by (simp add: demo_env_def query_and_classify_def subject_filter_def session_filter_def
      demo_sessions_def demo_heuristic_def)

lemma demo_run_dry:
  "convert_to_bids demo_env 7 ''Study A'' ''heur.py'' None None True 0 =
     (Inr (),
      [LogInfo ''Querying Flywheel server...'', FindFirst 7 (label_query ''Study A''),
       GetProjectSessions 7 ''p1'', GetSeqInfo 7 ''Study A'' demo_sessions,
       LogInfo ''Loading heuristic file...'', LoadHeuristic ''heur.py'',
       LogInfo ''Applying heuristic to query results...'', Infotodict [''s1'', ''s2''],
       LogInfo ''Updating IntendedFor fields based on heuristic file'',
       ApplyHeuristic 7 ''key1'' [''seqA''] True [''ref1''],
       ApplyHeuristic 7 ''key2'' [''seqB'', ''seqC''] True []], 0)"
  unfolding convert_to_bids_def demo_query
  by (simp add: apply_changes_def demo_heuristic_def
      demo_items_def demo_env_def defaultdict_getitem_def dict_update_def)

lemma demo_run_wet:
  "convert_to_bids demo_env 7 ''Study A'' ''heur.py'' None None False 0 =
     (Inl (Raised ''ApiException''),
      [LogInfo ''Querying Flywheel server...'', FindFirst 7 (label_query ''Study A''),
       GetProjectSessions 7 ''p1'', GetSeqInfo 7 ''Study A'' demo_sessions,
       LogInfo ''Loading heuristic file...'', LoadHeuristic ''heur.py'',
       LogInfo ''Applying heuristic to query results...'', Infotodict [''s1'', ''s2''],
       LogInfo ''Applying changes to files...'',
       LogInfo ''Updating IntendedFor fields based on heuristic file'',
       ApplyHeuristic 7 ''key1'' [''seqA''] False [''ref1''],
       ApplyHeuristic 7 ''key2'' [''seqB'', ''seqC''] False []], 1)"
  unfolding convert_to_bids_def demo_query
  by (simp add: apply_changes_def demo_heuristic_def
      demo_items_def demo_env_def defaultdict_getitem_def dict_update_def)

subsection \<open>The filters as list filters\<close>

lemma filters_as_filter:
  "subject_filter A S = filter (\<lambda>s. \<not> truthy A \<or> py_in (subj_label (s_subject s)) A) S"
  "session_filter B S = filter (\<lambda>s. \<not> truthy B \<or> py_in (s_label s) B) S"
  by (simp_all add: subject_filter_def session_filter_def)

lemma count_list_filter_le: "count_list (filter P xs) x \<le> count_list xs x"
  by (induction xs) auto

lemma query_sessions:
  assumes "find_first E client (label_query pl) w = (Inr (Some p), w1)"
      and "get_project_sessions E client (p_id p) w1 = (Inr fetched, w2)"
  shows "take 4 (trace (convert_to_bids E client pl hp subl sesl d w)) =
     [LogInfo ''Querying Flywheel server...'', FindFirst client (label_query pl),
      GetProjectSessions client (p_id p),
      GetSeqInfo client pl (session_filter sesl (subject_filter subl fetched))]"
  using assms unfolding convert_to_bids_def query_and_classify_def Let_def trace_def
  by (simp split: prod.splits sum.splits option.splits)

subsection \<open>Runs that reach the classification\<close>

lemma classified_run:
  assumes "query_and_classify E client pl hp subl sesl w = (Inr (h, items), t, w5)"
  obtains r evs w' where
    "apply_loop E client d (intention_map_of h) items w5 = (r, evs, w')"
    "convert_to_bids E client pl hp subl sesl d w = (r, t @ info_messages d h @ evs, w')"
    "prefix evs (map (spec_call client d h) items)"
    "r = Inr () \<Longrightarrow> evs = map (spec_call client d h) items"
proof -
  obtain r evs w' where l: "apply_loop E client d (intention_map_of h) items w5 = (r, evs, w')"
    by (cases "apply_loop E client d (intention_map_of h) items w5") auto
  have c: "convert_to_bids E client pl hp subl sesl d w = (r, t @ info_messages d h @ evs, w')"
    using convert_to_bids_classified[OF assms, of d] l by simp
  have p: "prefix evs (map (spec_call client d h) items)"
    "r = Inr () \<Longrightarrow> evs = map (spec_call client d h) items"
    using apply_loop_trace[OF l] by (simp_all add: call_of_spec)
  show ?thesis using that l c p by blast
qed

lemma classified_calls:
  assumes q: "query_and_classify E client pl hp subl sesl w = (Inr (h, items), t, w5)"
      and r: "convert_to_bids E client pl hp subl sesl d w = (r, t @ info_messages d (h::('w, 's, 'k, 'v, 'i) heuristic) @ evs, w')"
      and p: "prefix evs (map (spec_call client d h) items)"
  shows "apply_calls (trace (convert_to_bids E client pl hp subl sesl d w)) = evs"
    and "length (filter is_infotodict (trace (convert_to_bids E client pl hp subl sesl d w))) = 1"
proof -
  have t: "filter is_apply t = []" "length (filter is_infotodict t) = 1"
    using query_trace_shape[OF q] by simp_all
  show "apply_calls (trace (convert_to_bids E client pl hp subl sesl d w)) = evs"
    unfolding r apply_calls_def trace_def
    using t(1) prefix_calls[OF p] by (simp add: info_messages_no_calls)
  show "length (filter is_infotodict (trace (convert_to_bids E client pl hp subl sesl d w))) = 1"
    unfolding r trace_def
    using t(2) prefix_calls[OF p] by (simp add: info_messages_no_calls)
qed

lemma classified_apply_calls:
  assumes "query_and_classify E client pl hp subl sesl w = (Inr (h, items), t, w5)"
  shows "length (filter is_infotodict (trace (convert_to_bids E client pl hp subl sesl d w))) = 1"
    and "prefix (apply_calls (trace (convert_to_bids E client pl hp subl sesl d w)))
       (map (spec_call client d h) items)"
    and "outcome (convert_to_bids E client pl hp subl sesl d w) = Inr () \<Longrightarrow>
        apply_calls (trace (convert_to_bids E client pl hp subl sesl d w)) =
          map (spec_call client d h) items"
proof -
  obtain r evs w' where
    c: "convert_to_bids E client pl hp subl sesl d w = (r, t @ info_messages d h @ evs, w')"
    and p: "prefix evs (map (spec_call client d h) items)"
    and f: "r = Inr () \<Longrightarrow> evs = map (spec_call client d h) items"
    using classified_run[OF assms, of d] by metis
  have a: "apply_calls (trace (convert_to_bids E client pl hp subl sesl d w)) = evs"
    and i: "length (filter is_infotodict (trace (convert_to_bids E client pl hp subl sesl d w))) = 1"
    using classified_calls[OF assms c p] by simp_all
  have o: "outcome (convert_to_bids E client pl hp subl sesl d w) = r"
    by (simp add: c outcome_def)
  show "length (filter is_infotodict (trace (convert_to_bids E client pl hp subl sesl d w))) = 1"
    by (rule i)
  show "prefix (apply_calls (trace (convert_to_bids E client pl hp subl sesl d w)))
       (map (spec_call client d h) items)"
    using a p by simp
  show "apply_calls (trace (convert_to_bids E client pl hp subl sesl d w)) =
          map (spec_call client d h) items"
    if "outcome (convert_to_bids E client pl hp subl sesl d w) = Inr ()"
    using that a o f by simp
qed

lemma spec_call_inj:
  "ApplyHeuristic c k v d' i = spec_call client d h kv \<Longrightarrow>
     c = client \<and> d' = d \<and> i = spec_intentions h k \<and> kv = (k, v)"
  by (cases kv) (simp add: spec_call_def)

lemma classified_call_mem:
  assumes q: "query_and_classify E client pl hp subl sesl w = (Inr (h, items), t, w5)"
      and m: "ApplyHeuristic c k v d' i \<in> set (trace (convert_to_bids E client pl hp subl sesl d w))"
  shows "c = client \<and> d' = d \<and> i = spec_intentions h k \<and> (k, v) \<in> set items"
proof -
  have p: "prefix (apply_calls (trace (convert_to_bids E client pl hp subl sesl d w)))
       (map (spec_call client d h) items)"
    by (rule classified_apply_calls(2)[OF q])
  have "ApplyHeuristic c k v d' i \<in> set (apply_calls (trace (convert_to_bids E client pl hp subl sesl d w)))"
    using m by (simp add: apply_calls_def)
  then have "ApplyHeuristic c k v d' i \<in> set (map (spec_call client d h) items)"
    using set_mono_prefix[OF p] by blast
  then obtain kv where kv: "kv \<in> set items" "ApplyHeuristic c k v d' i = spec_call client d h kv"
    by auto
  show ?thesis using spec_call_inj[OF kv(2)] kv(1) by simp
qed

lemma erase_spec_call: "map erase_flag (map (spec_call c d h) items) = map (spec_call c False h) items"
  by (induction items) (auto simp: spec_call_def)

lemma classified_other_events:
  assumes q: "query_and_classify E client pl hp subl sesl w = (Inr (h, items), t, w5)"
  shows "filter (\<lambda>ev. \<not> is_apply ev) (trace (convert_to_bids E client pl hp subl sesl d w)) =
     t @ (if d then [] else [LogInfo ''Applying changes to files...'']) @
     (if IntendedFor h = None then []
      else [LogInfo ''Updating IntendedFor fields based on heuristic file''])"
proof -
  obtain r evs w' where
    c: "convert_to_bids E client pl hp subl sesl d w = (r, t @ info_messages d h @ evs, w')"
    and p: "prefix evs (map (spec_call client d h) items)"
    using classified_run[OF q, of d] by metis
  have t: "filter is_apply t = []" using query_trace_shape[OF q] by simp
  then have t': "filter (\<lambda>ev. \<not> is_apply ev) t = t"
    by (simp add: filter_empty_conv filter_id_conv)
  have "filter is_apply evs = evs" using prefix_calls[OF p] by simp
  then have e: "filter (\<lambda>ev. \<not> is_apply ev) evs = []"
    by (simp add: filter_empty_conv filter_id_conv)
  show ?thesis unfolding c trace_def
    by (simp add: t' e info_messages_def split: option.splits)
qed

lemma apply_changes_cong:
  assumes "\<forall>k \<in> fst ` set items. spec_intentions h k = spec_intentions h' k"
  shows "apply_loop E c d (intention_map_of h) items w =
         apply_loop E c d (intention_map_of h') items w"
  using assms by (intro apply_loop_cong) (simp add: lookup_intention_map_of)

lemma apply_changes_run:
  "outcome (apply_changes E c d h items w) = outcome (apply_loop E c d (intention_map_of h) items w) \<and>
   world (apply_changes E c d h items w) = world (apply_loop E c d (intention_map_of h) items w) \<and>
   apply_calls (trace (apply_changes E c d h items w)) =
     trace (apply_loop E c d (intention_map_of h) items w) \<and>
   prefix (trace (apply_loop E c d (intention_map_of h) items w)) (map (spec_call c d h) items)"
proof -
  obtain r evs w' where l: "apply_loop E c d (intention_map_of h) items w = (r, evs, w')"
    by (cases "apply_loop E c d (intention_map_of h) items w") auto
  have p: "prefix evs (map (spec_call c d h) items)"
    using apply_loop_trace[OF l] by (simp add: call_of_spec)
  show ?thesis
    using p prefix_calls[OF p]
    by (simp add: apply_changes_loop l outcome_def world_def trace_def apply_calls_def
        info_messages_no_calls)
qed

lemma convert_to_bids_starts:
  "take 2 (trace (convert_to_bids E client pl hp subl sesl d w)) =
     [LogInfo ''Querying Flywheel server...'', FindFirst client (label_query pl)]"
proof -
  obtain r t w5 where q: "query_and_classify E client pl hp subl sesl w = (r, t, w5)"
    by (cases "query_and_classify E client pl hp subl sesl w") auto
  have t: "take 2 t = [LogInfo ''Querying Flywheel server...'', FindFirst client (label_query pl)]"
    using query_trace_shape[OF q] by simp
  then have l: "2 \<le> length t"
    by (metis length_take min.cobounded1 length_Cons list.size(3) One_nat_def Suc_1)
  show ?thesis
    using t l unfolding convert_to_bids_def q trace_def
    by (auto split: sum.splits prod.splits)
qed

lemma join_space: "join sep (p # ps) = p @ concat (map (\<lambda>x. sep @ x) ps)"
  by (induction ps arbitrary: p) auto

section \<open>Claims\<close>

text \<open>
  C3. For every session list \<open>S\<close> and subject-label filter \<open>F\<close>: an absent or empty
  \<open>F\<close> leaves \<open>S\<close> unchanged, and a non-empty \<open>F\<close> keeps exactly the sessions of \<open>S\<close>
  whose subject label is a member of \<open>F\<close>, in their order.
\<close>

theorem subject_filter_exact:
  "subject_filter None S = S \<and>
   subject_filter (Some []) S = S \<and>
   subject_filter (Some (f # fs)) S =
     filter (\<lambda>s. subj_label (s_subject s) \<in> set (f # fs)) S \<and>
   set (subject_filter (Some (f # fs)) S) =
     {s \<in> set S. subj_label (s_subject s) \<in> set (f # fs)}"
  by (simp add: subject_filter_def)

text \<open>
  C4. Applying the subject filter and the session filter, in either order, gives the
  same list, and that list is the intersection of the results of the two filters
  applied alone: as sets, and as the sessions of one result that occur in the other.
\<close>

theorem filters_intersect_commute:
  "session_filter B (subject_filter A S) = subject_filter A (session_filter B S) \<and>
   set (session_filter B (subject_filter A S)) =
     set (subject_filter A S) \<inter> set (session_filter B S) \<and>
   session_filter B (subject_filter A S) =
     filter (\<lambda>s. s \<in> set (session_filter B S)) (subject_filter A S)"
proof -
  have 1: "session_filter B (subject_filter A S) = subject_filter A (session_filter B S)"
    unfolding filters_as_filter by (simp add: conj_commute)
  have 2: "set (session_filter B (subject_filter A S)) =
     set (subject_filter A S) \<inter> set (session_filter B S)"
    unfolding filters_as_filter by auto
  have 3: "session_filter B (subject_filter A S) =
     filter (\<lambda>s. s \<in> set (session_filter B S)) (subject_filter A S)"
    unfolding filters_as_filter by (auto intro: filter_cong)
  show ?thesis using 1 2 3 by blast
qed

text \<open>
  C10. Each filter, and both in sequence, return a subsequence of the list they are
  given: order is kept and no session occurs more often than before. In
  \<^verbatim>\<open>convert_to_bids\<close> the list passed to \<^verbatim>\<open>get_seq_info\<close> is a subsequence of the
  list \<^verbatim>\<open>get_project_sessions\<close> returned.
\<close>

theorem filters_subsequence:
  assumes "find_first E client (label_query pl) w = (Inr (Some p), w1)"
      and "get_project_sessions E client (p_id p) w1 = (Inr fetched, w2)"
  shows "subseq (subject_filter A S) S \<and> subseq (session_filter B S) S \<and>
     subseq (session_filter B (subject_filter A S)) S \<and>
     count_list (subject_filter A S) s \<le> count_list S s \<and>
     count_list (session_filter B S) s \<le> count_list S s \<and>
     count_list (session_filter B (subject_filter A S)) s \<le> count_list S s \<and>
     (\<exists>sessions. trace (convert_to_bids E client pl hp subl sesl d w) ! 3 =
          GetSeqInfo client pl sessions \<and> subseq sessions fetched)"
proof -
  have a: "subseq (subject_filter A S) S" "subseq (session_filter B S) S" for A B S
    unfolding filters_as_filter by simp_all
  have b: "subseq (session_filter B (subject_filter A S)) S" for A B S
    using a subseq_order.trans by blast
  have c: "count_list (subject_filter A S) s \<le> count_list S s"
    "count_list (session_filter B S) s \<le> count_list S s" for A B S
    unfolding filters_as_filter by (simp_all add: count_list_filter_le)
  have d: "count_list (session_filter B (subject_filter A S)) s \<le> count_list S s"
    using c le_trans by blast
  let ?t = "trace (convert_to_bids E client pl hp subl sesl d w)"
  have "take 4 ?t ! 3 = GetSeqInfo client pl (session_filter sesl (subject_filter subl fetched))"
    using query_sessions[OF assms] by simp
  then have "?t ! 3 = GetSeqInfo client pl (session_filter sesl (subject_filter subl fetched))"
    by simp
  then have e: "\<exists>sessions. ?t ! 3 = GetSeqInfo client pl sessions \<and> subseq sessions fetched"
    using b by blast
  show ?thesis using a b c d e by blast
qed

theorem filters_subsequence_witness:
  "trace (convert_to_bids demo_env 7 ''Study A'' ''heur.py'' (Some [''sub-02'']) None True 0) ! 3
     = GetSeqInfo 7 ''Study A'' [demo_sessions ! 1] \<and>
   subseq [demo_sessions ! 1] demo_sessions"
proof -
  have 1: "find_first demo_env 7 (label_query ''Study A'') 0 =
      (Inr (Some \<lparr>p_label = ''Study A'', p_id = ''p1''\<rparr>), 0)"
    by (simp add: demo_env_def)
  have 2: "get_project_sessions demo_env 7 (p_id \<lparr>p_label = ''Study A'', p_id = ''p1''\<rparr>) 0 =
      (Inr demo_sessions, 0)"
    by (simp add: demo_env_def)
  obtain sessions where
    s: "trace (convert_to_bids demo_env 7 ''Study A'' ''heur.py'' (Some [''sub-02'']) None True 0) ! 3
         = GetSeqInfo 7 ''Study A'' sessions" "subseq sessions demo_sessions"
    using filters_subsequence[OF 1 2, where hp = "''heur.py''" and subl = "Some [''sub-02'']"
        and sesl = None and d = True]
    by blast
  have "take 4 (trace (convert_to_bids demo_env 7 ''Study A'' ''heur.py'' (Some [''sub-02'']) None True 0)) ! 3
      = GetSeqInfo 7 ''Study A'' [demo_sessions ! 1]"
    unfolding query_sessions[OF 1 2]
    by (simp add: subject_filter_def session_filter_def demo_sessions_def)
  then have "sessions = [demo_sessions ! 1]" using s(1) by simp
  then show ?thesis using s by simp
qed

text \<open>
  C1. In a run that reaches the classification, every call of \<^verbatim>\<open>apply_heuristic\<close> is
  for an item \<open>(k, v)\<close> of the heuristic's result and receives as intention list the
  lookup-with-default of the specification: the \<open>IntendedFor\<close> entry of \<open>k\<close> when the
  heuristic has the attribute and the mapping has \<open>k\<close>, the empty list otherwise (also
  when the heuristic has no \<open>IntendedFor\<close>). When the run returns normally, every item
  has its call. The \<^verbatim>\<open>defaultdict\<close> of the source refines that lookup.
\<close>

theorem intentions_default_to_empty:
  assumes "query_and_classify E client pl hp subl sesl w = (Inr (h, to_rename), t, w5)"
  shows "(\<forall>c k v d' i.
        ApplyHeuristic c k v d' i \<in> set (trace (convert_to_bids E client pl hp subl sesl d w)) \<longrightarrow>
        i = spec_intentions h k \<and> (k, v) \<in> set to_rename) \<and>
     (outcome (convert_to_bids E client pl hp subl sesl d w) = Inr () \<longrightarrow>
        (\<forall>(k, v) \<in> set to_rename.
           ApplyHeuristic client k v d (spec_intentions h k)
             \<in> set (trace (convert_to_bids E client pl hp subl sesl d w))))"
proof -
  let ?run = "convert_to_bids E client pl hp subl sesl d w"
  have 1: "i = spec_intentions h k \<and> (k, v) \<in> set to_rename"
    if "ApplyHeuristic c k v d' i \<in> set (trace ?run)" for c k v d' i
    using classified_call_mem[OF assms that] by simp
  have 2: "ApplyHeuristic client k v d (spec_intentions h k) \<in> set (trace ?run)"
    if o: "outcome ?run = Inr ()" and m: "(k, v) \<in> set to_rename" for k v
  proof -
    have "apply_calls (trace ?run) = map (spec_call client d h) to_rename"
      using classified_apply_calls(3)[OF assms o] .
    moreover have "spec_call client d h (k, v) \<in> set (map (spec_call client d h) to_rename)"
      using m by simp
    ultimately have "spec_call client d h (k, v) \<in> set (apply_calls (trace ?run))" by simp
    then show ?thesis by (simp add: apply_calls_def spec_call_def)
  qed
  show ?thesis using 1 2 by blast
qed

theorem intentions_default_to_empty_witness:
  "spec_intentions demo_heuristic ''key1'' = [''ref1''] \<and>
   spec_intentions demo_heuristic ''key2'' = [] \<and>
   ApplyHeuristic 7 ''key1'' [''seqA''] True [''ref1'']
     \<in> set (trace (convert_to_bids demo_env 7 ''Study A'' ''heur.py'' None None True 0)) \<and>
   ApplyHeuristic 7 ''key2'' [''seqB'', ''seqC''] True []
     \<in> set (trace (convert_to_bids demo_env 7 ''Study A'' ''heur.py'' None None True 0))"
proof -
  have o: "outcome (convert_to_bids demo_env 7 ''Study A'' ''heur.py'' None None True 0) = Inr ()"
    by (simp add: demo_run_dry outcome_def)
  have s: "spec_intentions demo_heuristic ''key1'' = [''ref1'']"
    "spec_intentions demo_heuristic ''key2'' = []"
    by (simp_all add: spec_intentions_def demo_heuristic_def)
  have "\<forall>(k, v) \<in> set demo_items.
      ApplyHeuristic 7 k v True (spec_intentions demo_heuristic k)
        \<in> set (trace (convert_to_bids demo_env 7 ''Study A'' ''heur.py'' None None True 0))"
    using intentions_default_to_empty[OF demo_query, of True] o by blast
  then show ?thesis using s by (simp add: demo_items_def)
qed

text \<open>
  C2, as amended. When \<^verbatim>\<open>find_first\<close> does not return a project (it returns
  \<^verbatim>\<open>None\<close>, or raises), \<^verbatim>\<open>convert_to_bids\<close> ends with an exception right after
  that call: the trace holds the first log message and the project query and nothing
  else, so no session or sequence-info query is made. The exception is the one
  \<^verbatim>\<open>find_first\<close> raised, or the \<^verbatim>\<open>TypeError\<close> of subscripting \<^verbatim>\<open>None\<close> on line
  44; the function has no not-found error of its own.
\<close>

theorem missing_project_raises:
  assumes "\<forall>p. fst (find_first E client (label_query pl) w) \<noteq> Inr (Some p)"
  shows "isl (outcome (convert_to_bids E client pl hp subl sesl d w)) \<and>
     trace (convert_to_bids E client pl hp subl sesl d w) =
       [LogInfo ''Querying Flywheel server...'', FindFirst client (label_query pl)] \<and>
     filter is_session_query (trace (convert_to_bids E client pl hp subl sesl d w)) = [] \<and>
     world (convert_to_bids E client pl hp subl sesl d w) =
       snd (find_first E client (label_query pl) w) \<and>
     (fst (find_first E client (label_query pl) w) = Inr None \<longrightarrow>
        outcome (convert_to_bids E client pl hp subl sesl d w) = Inl TypeError) \<and>
     (\<forall>e. fst (find_first E client (label_query pl) w) = Inl e \<longrightarrow>
        outcome (convert_to_bids E client pl hp subl sesl d w) = Inl e)"
proof -
  obtain r w1 where f: "find_first E client (label_query pl) w = (r, w1)"
    by (cases "find_first E client (label_query pl) w") auto
  have n: "\<forall>p. r \<noteq> Inr (Some p)" using assms f by simp
  show ?thesis
  proof (cases r)
    case (Inl e)
    then show ?thesis
      by (simp add: convert_to_bids_def query_and_classify_def f outcome_def trace_def world_def)
  next
    case (Inr po)
    then have "po = None" using n by (cases po) auto
    then show ?thesis using Inr
      by (simp add: convert_to_bids_def query_and_classify_def f outcome_def trace_def world_def)
  qed
qed

theorem missing_project_raises_witness:
  "fst (find_first demo_env 7 (label_query ''Study B'') 0) = Inr None \<and>
   outcome (convert_to_bids demo_env 7 ''Study B'' ''heur.py'' None None False 0) = Inl TypeError \<and>
   trace (convert_to_bids demo_env 7 ''Study B'' ''heur.py'' None None False 0) =
     [LogInfo ''Querying Flywheel server...'', FindFirst 7 (label_query ''Study B'')] \<and>
   world (convert_to_bids demo_env 7 ''Study B'' ''heur.py'' None None False 0) = 0"
proof -
  have f: "find_first demo_env 7 (label_query ''Study B'') 0 = (Inr None, 0)"
    by (simp add: demo_env_def label_query_def)
  then have "\<forall>p. fst (find_first demo_env 7 (label_query ''Study B'') 0) \<noteq> Inr (Some p)"
    by simp
  from missing_project_raises[OF this, of "''heur.py''" None None False]
  show ?thesis by (simp add: f)
qed

text \<open>
  C2 as stated fails: the label "Study B" matches no project, \<^verbatim>\<open>find_first\<close>
  returns \<^verbatim>\<open>None\<close>, and the exception that reaches the caller is a \<^verbatim>\<open>TypeError\<close>,
  not a \<^verbatim>\<open>NotFoundError\<close>.
\<close>

theorem not_found_error_counterexample:
  "find_first demo_env 7 (label_query ''Study B'') 0 = (Inr None, 0) \<and>
   outcome (convert_to_bids demo_env 7 ''Study B'' ''heur.py'' None None False 0) = Inl TypeError \<and>
   outcome (convert_to_bids demo_env 7 ''Study B'' ''heur.py'' None None False 0)
     \<noteq> Inl (Raised ''NotFoundError'')"
  by (simp add: convert_to_bids_def query_and_classify_def demo_env_def label_query_def
      outcome_def)

text \<open>
  C5. A run that reaches the classification calls \<^verbatim>\<open>infotodict\<close> exactly once. Its
  apply calls are an initial segment of the list that has, for each item \<open>(k, v)\<close> of
  the heuristic's result in the result's order, the call with the client handle, \<open>k\<close>,
  \<open>v\<close>, the dry-run flag and the intention list of \<open>k\<close>: nothing is reordered, repeated
  or dropped in between. When the run returns normally the apply calls are that whole
  list, one call per item.
\<close>

theorem one_classification_n_apply_calls:
  assumes "query_and_classify E client pl hp subl sesl w = (Inr (h, to_rename), t, w5)"
  shows "length (filter is_infotodict (trace (convert_to_bids E client pl hp subl sesl d w))) = 1 \<and>
     prefix (apply_calls (trace (convert_to_bids E client pl hp subl sesl d w)))
       (map (spec_call client d h) to_rename) \<and>
     (outcome (convert_to_bids E client pl hp subl sesl d w) = Inr () \<longrightarrow>
        apply_calls (trace (convert_to_bids E client pl hp subl sesl d w)) =
          map (spec_call client d h) to_rename \<and>
        length (apply_calls (trace (convert_to_bids E client pl hp subl sesl d w))) =
          length to_rename)"
  using classified_apply_calls[OF assms, of d] by simp

theorem one_classification_n_apply_calls_witness:
  "outcome (query_and_classify demo_env 7 ''Study A'' ''heur.py'' None None 0) =
     Inr (demo_heuristic, demo_items) \<and>
   outcome (convert_to_bids demo_env 7 ''Study A'' ''heur.py'' None None True 0) = Inr () \<and>
   length (filter is_infotodict
     (trace (convert_to_bids demo_env 7 ''Study A'' ''heur.py'' None None True 0))) = 1 \<and>
   apply_calls (trace (convert_to_bids demo_env 7 ''Study A'' ''heur.py'' None None True 0)) =
     [ApplyHeuristic 7 ''key1'' [''seqA''] True [''ref1''],
      ApplyHeuristic 7 ''key2'' [''seqB'', ''seqC''] True []]"
proof -
  have o: "outcome (convert_to_bids demo_env 7 ''Study A'' ''heur.py'' None None True 0) = Inr ()"
    by (simp add: demo_run_dry outcome_def)
  have m: "map (spec_call (7::nat) True demo_heuristic) demo_items =
     [ApplyHeuristic 7 ''key1'' [''seqA''] True [''ref1''],
      ApplyHeuristic 7 ''key2'' [''seqB'', ''seqC''] True []]"
    by (simp add: spec_call_def spec_intentions_def demo_heuristic_def demo_items_def)
  show ?thesis
    using one_classification_n_apply_calls[OF demo_query, of True] o m
    by (simp add: demo_query outcome_def)
qed

text \<open>
  C6, as amended. Every apply call carries the dry-run flag the run was given. For two
  runs from the same world that differ only in the flag, the apply calls with the flag
  blanked agree as far as both runs get (one sequence is an initial segment of the
  other) and are equal when both runs return normally. The function branches on the
  flag once, for a log message: without the apply calls, the trace is the trace of the
  query phase, then "Applying changes to files..." exactly when the flag is false,
  then the \<open>IntendedFor\<close> message when the heuristic has the attribute.
\<close>

theorem dry_run_passed_through:
  assumes "query_and_classify E client pl hp subl sesl w = (Inr (h, to_rename), t, w5)"
  shows "(\<forall>c k v d' i.
        ApplyHeuristic c k v d' i \<in> set (trace (convert_to_bids E client pl hp subl sesl d w)) \<longrightarrow>
        d' = d) \<and>
     (prefix (map erase_flag (apply_calls (trace (convert_to_bids E client pl hp subl sesl d1 w))))
             (map erase_flag (apply_calls (trace (convert_to_bids E client pl hp subl sesl d2 w)))) \<or>
      prefix (map erase_flag (apply_calls (trace (convert_to_bids E client pl hp subl sesl d2 w))))
             (map erase_flag (apply_calls (trace (convert_to_bids E client pl hp subl sesl d1 w))))) \<and>
     (outcome (convert_to_bids E client pl hp subl sesl d1 w) = Inr () \<and>
      outcome (convert_to_bids E client pl hp subl sesl d2 w) = Inr () \<longrightarrow>
        map erase_flag (apply_calls (trace (convert_to_bids E client pl hp subl sesl d1 w))) =
        map erase_flag (apply_calls (trace (convert_to_bids E client pl hp subl sesl d2 w)))) \<and>
     filter (\<lambda>ev. \<not> is_apply ev) (trace (convert_to_bids E client pl hp subl sesl d w)) =
       t @ (if d then [] else [LogInfo ''Applying changes to files...'']) @
       (if IntendedFor h = None then []
        else [LogInfo ''Updating IntendedFor fields based on heuristic file''])"
proof -
  let ?run = "\<lambda>d. convert_to_bids E client pl hp subl sesl d w"
  let ?calls = "\<lambda>d. map erase_flag (apply_calls (trace (?run d)))"
  have 1: "d' = d" if "ApplyHeuristic c k v d' i \<in> set (trace (?run d))" for c k v d' i
    using classified_call_mem[OF assms that] by simp
  have p: "prefix (?calls d) (map (spec_call client False h) to_rename)" for d
    using map_mono_prefix[OF classified_apply_calls(2)[OF assms, of d], of erase_flag]
    unfolding erase_spec_call .
  have 2: "prefix (?calls d1) (?calls d2) \<or> prefix (?calls d2) (?calls d1)"
    using prefix_same_cases[OF p[of d1] p[of d2]] by blast
  have f: "?calls d = map (spec_call client False h) to_rename" if "outcome (?run d) = Inr ()" for d
    unfolding classified_apply_calls(3)[OF assms that] erase_spec_call ..
  have 3: "?calls d1 = ?calls d2" if "outcome (?run d1) = Inr () \<and> outcome (?run d2) = Inr ()"
    using that f[of d1] f[of d2] by simp
  show ?thesis using 1 2 3 classified_other_events[OF assms, of d] by blast
qed

theorem dry_run_passed_through_witness:
  "filter (\<lambda>ev. \<not> is_apply ev)
      (trace (convert_to_bids demo_env 7 ''Study A'' ''heur.py'' None None False 0)) =
     [LogInfo ''Querying Flywheel server...'', FindFirst 7 (label_query ''Study A''),
      GetProjectSessions 7 ''p1'', GetSeqInfo 7 ''Study A'' demo_sessions,
      LogInfo ''Loading heuristic file...'', LoadHeuristic ''heur.py'',
      LogInfo ''Applying heuristic to query results...'', Infotodict [''s1'', ''s2''],
      LogInfo ''Applying changes to files...'',
      LogInfo ''Updating IntendedFor fields based on heuristic file''] \<and>
   ApplyHeuristic 7 ''key1'' [''seqA''] False [''ref1'']
     \<in> set (trace (convert_to_bids demo_env 7 ''Study A'' ''heur.py'' None None False 0))"
proof -
  have i: "IntendedFor demo_heuristic \<noteq> None" by (simp add: demo_heuristic_def)
  have m: "ApplyHeuristic 7 ''key1'' [''seqA''] False [''ref1'']
     \<in> set (trace (convert_to_bids demo_env 7 ''Study A'' ''heur.py'' None None False 0))"
    by (simp add: demo_run_wet trace_def)
  show ?thesis
    using dry_run_passed_through[OF demo_query, of False] i m by simp
qed

text \<open>
  C6 as stated fails: the run branches on the flag. With the flag false the trace has
  the message "Applying changes to files...", with the flag true it has not, so the two
  traces differ in more than the flag passed to the apply calls.
\<close>

theorem dry_run_branch_counterexample:
  "LogInfo ''Applying changes to files...''
     \<in> set (trace (convert_to_bids demo_env 7 ''Study A'' ''heur.py'' None None False 0)) \<and>
   LogInfo ''Applying changes to files...''
     \<notin> set (trace (convert_to_bids demo_env 7 ''Study A'' ''heur.py'' None None True 0)) \<and>
   map erase_flag (trace (convert_to_bids demo_env 7 ''Study A'' ''heur.py'' None None False 0)) \<noteq>
   map erase_flag (trace (convert_to_bids demo_env 7 ''Study A'' ''heur.py'' None None True 0))"
  by (simp add: demo_run_wet demo_run_dry trace_def)

text \<open>
  C7. Let the heuristic's result be \<open>xs @ (k, v) # ys\<close>, let the apply calls for \<open>xs\<close>
  return normally, and let the call for \<open>(k, v)\<close> raise \<open>e\<close>. Then the run ends with \<open>e\<close>;
  its trace ends with the failing call, so that call is made once, every item of \<open>xs\<close>
  has had its one call before it, no item of \<open>ys\<close> gets a call and nothing is called
  afterwards; and the world is the one the failing call left.
\<close>

theorem apply_failure_propagates:
  assumes q: "query_and_classify E client pl hp subl sesl w = (Inr (h, xs @ (k, v) # ys), t, w5)"
      and first: "apply_changes E client d h xs w5 = (Inr (), t1, w6)"
      and fail: "apply_heuristic E client k v d (spec_intentions h k) w6 = (Inl e, w7)"
  shows "convert_to_bids E client pl hp subl sesl d w =
       (Inl e, t @ t1 @ [ApplyHeuristic client k v d (spec_intentions h k)], w7) \<and>
     apply_calls t1 = map (spec_call client d h) xs \<and>
     apply_calls (trace (convert_to_bids E client pl hp subl sesl d w)) =
       map (spec_call client d h) (xs @ [(k, v)])"
proof -
  obtain r1 evs1 w1 where l: "apply_loop E client d (intention_map_of h) xs w5 = (r1, evs1, w1)"
    by (cases "apply_loop E client d (intention_map_of h) xs w5") auto
  have r1: "r1 = Inr ()" "t1 = info_messages d h @ evs1" "w1 = w6"
    using first l by (simp_all add: apply_changes_loop)
  have evs1: "evs1 = map (spec_call client d h) xs"
    using apply_loop_trace[OF l] r1(1) by (simp add: call_of_spec)
  have s: "apply_loop E client d (intention_map_of h) ((k, v) # ys) w6 =
      (Inl e, [ApplyHeuristic client k v d (spec_intentions h k)], w7)"
    unfolding apply_loop_step lookup_intention_map_of using fail by simp
  have a: "apply_loop E client d (intention_map_of h) (xs @ (k, v) # ys) w5 =
      (Inl e, evs1 @ [ApplyHeuristic client k v d (spec_intentions h k)], w7)"
    unfolding apply_loop_append using l r1 s by simp
  have c: "convert_to_bids E client pl hp subl sesl d w =
       (Inl e, t @ t1 @ [ApplyHeuristic client k v d (spec_intentions h k)], w7)"
    unfolding convert_to_bids_classified[OF q] a r1(2) by simp
  have t: "filter is_apply t = []" using query_trace_shape[OF q] by simp
  have c1: "apply_calls t1 = map (spec_call client d h) xs"
    unfolding r1(2) evs1 apply_calls_def
    using prefix_calls[of "map (spec_call client d h) xs" client d h xs]
    by (simp add: info_messages_no_calls)
  have c2: "apply_calls (trace (convert_to_bids E client pl hp subl sesl d w)) =
       map (spec_call client d h) (xs @ [(k, v)])"
    unfolding c trace_def using c1 t by (simp add: apply_calls_def spec_call_def)
  show ?thesis using c c1 c2 by blast
qed

theorem apply_failure_propagates_witness:
  "convert_to_bids demo_env 7 ''Study A'' ''heur.py'' None None False 0 =
     (Inl (Raised ''ApiException''),
      [LogInfo ''Querying Flywheel server...'', FindFirst 7 (label_query ''Study A''),
       GetProjectSessions 7 ''p1'', GetSeqInfo 7 ''Study A'' demo_sessions,
       LogInfo ''Loading heuristic file...'', LoadHeuristic ''heur.py'',
       LogInfo ''Applying heuristic to query results...'', Infotodict [''s1'', ''s2''],
       LogInfo ''Applying changes to files...'',
       LogInfo ''Updating IntendedFor fields based on heuristic file'',
       ApplyHeuristic 7 ''key1'' [''seqA''] False [''ref1''],
       ApplyHeuristic 7 ''key2'' [''seqB'', ''seqC''] False []], 1) \<and>
   apply_calls (trace (convert_to_bids demo_env 7 ''Study A'' ''heur.py'' None None False 0)) =
     [ApplyHeuristic 7 ''key1'' [''seqA''] False [''ref1''],
      ApplyHeuristic 7 ''key2'' [''seqB'', ''seqC''] False []]"
proof -
  have q: "query_and_classify demo_env 7 ''Study A'' ''heur.py'' None None 0 =
     (Inr (demo_heuristic, [(''key1'', [''seqA''])] @ (''key2'', [''seqB'', ''seqC'']) # []),
      [LogInfo ''Querying Flywheel server...'', FindFirst 7 (label_query ''Study A''),
       GetProjectSessions 7 ''p1'', GetSeqInfo 7 ''Study A'' demo_sessions,
       LogInfo ''Loading heuristic file...'', LoadHeuristic ''heur.py'',
       LogInfo ''Applying heuristic to query results...'', Infotodict [''s1'', ''s2'']], 0)"
    by (simp add: demo_query demo_items_def)
  have first: "apply_changes demo_env 7 False demo_heuristic [(''key1'', [''seqA''])] 0 =
     (Inr (),
      [LogInfo ''Applying changes to files...'',
       LogInfo ''Updating IntendedFor fields based on heuristic file'',
       ApplyHeuristic 7 ''key1'' [''seqA''] False [''ref1'']], 1)"
    by (simp add: apply_changes_def demo_heuristic_def demo_env_def defaultdict_getitem_def
        dict_update_def)
  have s: "spec_intentions demo_heuristic ''key2'' = []"
    by (simp add: spec_intentions_def demo_heuristic_def)
  have fail: "apply_heuristic demo_env 7 ''key2'' [''seqB'', ''seqC''] False
       (spec_intentions demo_heuristic ''key2'') 1 = (Inl (Raised ''ApiException''), 1)"
    by (simp add: s demo_env_def)
  have m: "map (spec_call (7::nat) False demo_heuristic)
      ([(''key1'', [''seqA''])] @ [(''key2'', [''seqB'', ''seqC''])]) =
     [ApplyHeuristic 7 ''key1'' [''seqA''] False [''ref1''],
      ApplyHeuristic 7 ''key2'' [''seqB'', ''seqC''] False []]"
    by (simp add: spec_call_def spec_intentions_def demo_heuristic_def)
  show ?thesis
  proof (intro conjI)
    show "convert_to_bids demo_env 7 ''Study A'' ''heur.py'' None None False 0 =
     (Inl (Raised ''ApiException''),
      [LogInfo ''Querying Flywheel server...'', FindFirst 7 (label_query ''Study A''),
       GetProjectSessions 7 ''p1'', GetSeqInfo 7 ''Study A'' demo_sessions,
       LogInfo ''Loading heuristic file...'', LoadHeuristic ''heur.py'',
       LogInfo ''Applying heuristic to query results...'', Infotodict [''s1'', ''s2''],
       LogInfo ''Applying changes to files...'',
       LogInfo ''Updating IntendedFor fields based on heuristic file'',
       ApplyHeuristic 7 ''key1'' [''seqA''] False [''ref1''],
       ApplyHeuristic 7 ''key2'' [''seqB'', ''seqC''] False []], 1)"
      using apply_failure_propagates[OF q first fail, THEN conjunct1] unfolding s by simp
    show "apply_calls (trace (convert_to_bids demo_env 7 ''Study A'' ''heur.py'' None None False 0)) =
     [ApplyHeuristic 7 ''key1'' [''seqA''] False [''ref1''],
      ApplyHeuristic 7 ''key2'' [''seqB'', ''seqC''] False []]"
      using apply_failure_propagates[OF q first fail, THEN conjunct2, THEN conjunct2]
      unfolding m .
  qed
qed

text \<open>
  C8. The parser declares \<^verbatim>\<open>--project\<close> with \<^verbatim>\<open>nargs="+"\<close> and
  \<^verbatim>\<open>required=True\<close>. \<^verbatim>\<open>main\<close> joins the values with single spaces (the first
  value, then a space and the next value for each further one) and passes the result
  to \<^verbatim>\<open>convert_to_bids\<close> as the project label. The first call on the client is
  \<^verbatim>\<open>find_first\<close> with the string \<^verbatim>\<open>label="\<close>, the joined values, \<^verbatim>\<open>"\<close>: that
  string is in the trace, and what \<^verbatim>\<open>find_first\<close> answers to that string decides the
  run (its exception ends the run, a missing project ends it with a \<^verbatim>\<open>TypeError\<close>,
  and the id of the project it returns is the one the sessions are fetched for).
\<close>

theorem project_labels_joined:
  assumes "flywheel_Client E w = (Inr fw, w0)" and "client_bool E fw"
  shows "map (\<lambda>a. (opt_nargs a, opt_required a))
       (filter (\<lambda>a. opt_string a = ''--project'') get_parser) = [(Some ''+'', True)] \<and>
     join '' '' (p # ps) = p @ concat (map (\<lambda>x. '' '' @ x) ps) \<and>
     main E args w =
       (case convert_to_bids E fw (join '' '' (args_project args)) (args_heuristic args)
               (args_subject args) (args_session args) (args_dry_run args) w0 of
          (r, t, w') \<Rightarrow> (r, NewClient # t, w')) \<and>
     take 3 (trace (main E args w)) =
       [NewClient, LogInfo ''Querying Flywheel server...'',
        FindFirst fw (''label='' @ [CHR 0x22] @ join '' '' (args_project args) @ [CHR 0x22])] \<and>
     (args_project args = p # ps \<longrightarrow>
        take 3 (trace (main E args w)) =
          [NewClient, LogInfo ''Querying Flywheel server...'',
           FindFirst fw
             (''label='' @ [CHR 0x22] @ p @ concat (map (\<lambda>x. '' '' @ x) ps) @ [CHR 0x22])]) \<and>
     (\<forall>e w1.
        find_first E fw (''label='' @ [CHR 0x22] @ join '' '' (args_project args) @ [CHR 0x22]) w0
          = (Inl e, w1) \<longrightarrow>
        main E args w =
          (Inl e,
           [NewClient, LogInfo ''Querying Flywheel server...'',
            FindFirst fw (''label='' @ [CHR 0x22] @ join '' '' (args_project args) @ [CHR 0x22])],
           w1)) \<and>
     (\<forall>w1.
        find_first E fw (''label='' @ [CHR 0x22] @ join '' '' (args_project args) @ [CHR 0x22]) w0
          = (Inr None, w1) \<longrightarrow>
        main E args w =
          (Inl TypeError,
           [NewClient, LogInfo ''Querying Flywheel server...'',
            FindFirst fw (''label='' @ [CHR 0x22] @ join '' '' (args_project args) @ [CHR 0x22])],
           w1)) \<and>
     (\<forall>project_obj w1.
        find_first E fw (''label='' @ [CHR 0x22] @ join '' '' (args_project args) @ [CHR 0x22]) w0
          = (Inr (Some project_obj), w1) \<longrightarrow>
        take 4 (trace (main E args w)) =
          [NewClient, LogInfo ''Querying Flywheel server...'',
           FindFirst fw (''label='' @ [CHR 0x22] @ join '' '' (args_project args) @ [CHR 0x22]),
           GetProjectSessions fw (p_id project_obj)])"
proof -
  let ?q = "''label='' @ [CHR 0x22] @ join '' '' (args_project args) @ [CHR 0x22]"
  let ?run = "convert_to_bids E fw (join '' '' (args_project args)) (args_heuristic args)
               (args_subject args) (args_session args) (args_dry_run args) w0"
  have q: "label_query (join '' '' (args_project args)) = ?q"
    by (simp add: label_query_def)
  have 1: "map (\<lambda>a. (opt_nargs a, opt_required a))
       (filter (\<lambda>a. opt_string a = ''--project'') get_parser) = [(Some ''+'', True)]"
    by (simp add: get_parser_def)
  have 2: "join '' '' (p # ps) = p @ concat (map (\<lambda>x. '' '' @ x) ps)"
    by (rule join_space)
  have 3: "main E args w = (case ?run of (r, t, w') \<Rightarrow> (r, NewClient # t, w'))"
    using assms by (simp add: main_def)
  obtain r t w' where c: "?run = (r, t, w')"
    by (cases ?run) auto
  have "take 2 t = [LogInfo ''Querying Flywheel server...'', FindFirst fw ?q]"
    using convert_to_bids_starts[of E fw "join '' '' (args_project args)" "args_heuristic args"
        "args_subject args" "args_session args" "args_dry_run args" w0]
    unfolding q by (simp add: c trace_def)
  then have 4: "take 3 (trace (main E args w)) =
       [NewClient, LogInfo ''Querying Flywheel server...'', FindFirst fw ?q]"
    unfolding 3 c by (simp add: trace_def numeral_3_eq_3 numeral_2_eq_2)
  have 5: "take 3 (trace (main E args w)) =
          [NewClient, LogInfo ''Querying Flywheel server...'',
           FindFirst fw
             (''label='' @ [CHR 0x22] @ p @ concat (map (\<lambda>x. '' '' @ x) ps) @ [CHR 0x22])]"
    if "args_project args = p # ps"
    using 4 unfolding that 2 by (simp only: append_assoc)
  have 6: "main E args w =
      (Inl e, [NewClient, LogInfo ''Querying Flywheel server...'', FindFirst fw ?q], w1)"
    if "find_first E fw ?q w0 = (Inl e, w1)" for e w1
    unfolding 3 convert_to_bids_def query_and_classify_def q using that by simp
  have 7: "main E args w =
      (Inl TypeError, [NewClient, LogInfo ''Querying Flywheel server...'', FindFirst fw ?q], w1)"
    if "find_first E fw ?q w0 = (Inr None, w1)" for w1
    unfolding 3 convert_to_bids_def query_and_classify_def q using that by simp
  have 8: "take 4 (trace (main E args w)) =
      [NewClient, LogInfo ''Querying Flywheel server...'', FindFirst fw ?q,
       GetProjectSessions fw (p_id project_obj)]"
    if "find_first E fw ?q w0 = (Inr (Some project_obj), w1)" for project_obj w1
    unfolding 3 convert_to_bids_def query_and_classify_def q trace_def Let_def using that
    by (simp add: numeral_eq_Suc split: prod.splits sum.splits option.splits)
  show ?thesis using 1 2 3 4 5 6 7 8 by blast
qed

theorem project_labels_joined_witness:
  "join '' '' [''Study'', ''A''] = ''Study A'' \<and>
   find_first demo_env 7 (''label='' @ [CHR 0x22] @ ''Study A'' @ [CHR 0x22]) 0 =
     (Inr (Some \<lparr>p_label = ''Study A'', p_id = ''p1''\<rparr>), 0) \<and>
   take 4 (trace (main demo_env
      \<lparr>args_project = [''Study'', ''A''], args_heuristic = ''heur.py'', args_subject = None,
       args_session = None, args_verbose = False, args_dry_run = True\<rparr> 0)) =
     [NewClient, LogInfo ''Querying Flywheel server...'',
      FindFirst 7 (''label='' @ [CHR 0x22] @ ''Study A'' @ [CHR 0x22]),
      GetProjectSessions 7 ''p1''] \<and>
   take 3 (trace (main demo_env
      \<lparr>args_project = [''Study'', ''A''], args_heuristic = ''heur.py'', args_subject = None,
       args_session = None, args_verbose = False, args_dry_run = True\<rparr> 0)) =
     [NewClient, LogInfo ''Querying Flywheel server...'',
      FindFirst 7 [CHR ''l'', CHR ''a'', CHR ''b'', CHR ''e'', CHR ''l'', CHR ''='', CHR 0x22,
                   CHR ''S'', CHR ''t'', CHR ''u'', CHR ''d'', CHR ''y'', CHR '' '', CHR ''A'',
                   CHR 0x22]] \<and>
   outcome (main demo_env
      \<lparr>args_project = [''Study'', ''A''], args_heuristic = ''heur.py'', args_subject = None,
       args_session = None, args_verbose = False, args_dry_run = True\<rparr> 0) = Inr ()"
proof -
  let ?args = "\<lparr>args_project = [''Study'', ''A''], args_heuristic = ''heur.py'',
       args_subject = None, args_session = None, args_verbose = False, args_dry_run = True\<rparr>"
  have a: "flywheel_Client demo_env 0 = (Inr 7, 0)" by (simp add: demo_env_def)
  have b: "client_bool demo_env 7" by (simp add: demo_env_def)
  have j: "join '' '' [''Study'', ''A''] = ''Study A''" by simp
  have f: "find_first demo_env 7 (''label='' @ [CHR 0x22] @ ''Study A'' @ [CHR 0x22]) 0 =
     (Inr (Some \<lparr>p_label = ''Study A'', p_id = ''p1''\<rparr>), 0)"
    by (simp add: demo_env_def label_query_def)
  note r = project_labels_joined[OF a b, where p = "''Study''" and ps = "[''A'']"
      and args = ?args]
  have p: "args_project ?args = [''Study'', ''A'']" by simp
  have f': "find_first demo_env 7
      (''label='' @ [CHR 0x22] @ join '' '' (args_project ?args) @ [CHR 0x22]) 0 =
     (Inr (Some \<lparr>p_label = ''Study A'', p_id = ''p1''\<rparr>), 0)"
    unfolding p j by (rule f)
  have 0: "take 4 (trace (main demo_env ?args 0)) =
     [NewClient, LogInfo ''Querying Flywheel server...'',
      FindFirst 7 (''label='' @ [CHR 0x22] @ ''Study A'' @ [CHR 0x22]),
      GetProjectSessions 7 ''p1'']"
    using r[THEN conjunct2, THEN conjunct2, THEN conjunct2, THEN conjunct2, THEN conjunct2,
        THEN conjunct2, THEN conjunct2, rule_format, OF f']
    unfolding p j by simp
  have 1: "take 3 (trace (main demo_env ?args 0)) =
     [NewClient, LogInfo ''Querying Flywheel server...'',
      FindFirst 7 [CHR ''l'', CHR ''a'', CHR ''b'', CHR ''e'', CHR ''l'', CHR ''='', CHR 0x22,
                   CHR ''S'', CHR ''t'', CHR ''u'', CHR ''d'', CHR ''y'', CHR '' '', CHR ''A'',
                   CHR 0x22]]"
    using r[THEN conjunct2, THEN conjunct2, THEN conjunct2, THEN conjunct1] by simp
  have 2: "outcome (main demo_env ?args 0) = Inr ()"
    unfolding r[THEN conjunct2, THEN conjunct2, THEN conjunct1]
    by (simp add: demo_run_dry outcome_def)
  show ?thesis using j f 0 1 2 by blast
qed

text \<open>
  C9. An \<open>IntendedFor\<close> entry whose key is not a key of the heuristic's result changes
  nothing in lines 67 to 77: with or without the entry the outcome, the trace and the
  world are the same; a mapping with only such an entry gives the apply calls, outcome
  and world of a heuristic with no \<open>IntendedFor\<close>. Every apply call is for an item of
  the result, so the entry gets no call of its own.
\<close>

theorem unused_intentions_ignored:
  "(k \<notin> fst ` set to_rename \<longrightarrow>
      apply_changes E c d (h\<lparr>IntendedFor := Some (m(k \<mapsto> x))\<rparr>) to_rename w =
      apply_changes E c d (h\<lparr>IntendedFor := Some m\<rparr>) to_rename w \<and>
      apply_calls (trace (apply_changes E c d (h\<lparr>IntendedFor := Some [k \<mapsto> x]\<rparr>) to_rename w)) =
      apply_calls (trace (apply_changes E c d (h\<lparr>IntendedFor := None\<rparr>) to_rename w)) \<and>
      outcome (apply_changes E c d (h\<lparr>IntendedFor := Some [k \<mapsto> x]\<rparr>) to_rename w) =
      outcome (apply_changes E c d (h\<lparr>IntendedFor := None\<rparr>) to_rename w) \<and>
      world (apply_changes E c d (h\<lparr>IntendedFor := Some [k \<mapsto> x]\<rparr>) to_rename w) =
      world (apply_changes E c d (h\<lparr>IntendedFor := None\<rparr>) to_rename w)) \<and>
   (\<forall>c' k' v' d' i'.
      ApplyHeuristic c' k' v' d' i' \<in> set (trace (apply_changes E c d h to_rename w)) \<longrightarrow>
      (k', v') \<in> set to_rename)"
proof -
  have 1: "apply_changes E c d (h\<lparr>IntendedFor := Some (m(k \<mapsto> x))\<rparr>) to_rename w =
      apply_changes E c d (h\<lparr>IntendedFor := Some m\<rparr>) to_rename w"
    if "k \<notin> fst ` set to_rename"
  proof -
    have "\<forall>k' \<in> fst ` set to_rename.
        spec_intentions (h\<lparr>IntendedFor := Some (m(k \<mapsto> x))\<rparr>) k' =
        spec_intentions (h\<lparr>IntendedFor := Some m\<rparr>) k'"
      using that by (auto simp: spec_intentions_def)
    then have "apply_loop E c d (intention_map_of (h\<lparr>IntendedFor := Some (m(k \<mapsto> x))\<rparr>)) to_rename w =
        apply_loop E c d (intention_map_of (h\<lparr>IntendedFor := Some m\<rparr>)) to_rename w"
      by (rule apply_changes_cong)
    then show ?thesis
      unfolding apply_changes_loop by (simp add: info_messages_def)
  qed
  have 2: "apply_loop E c d (intention_map_of (h\<lparr>IntendedFor := Some [k \<mapsto> x]\<rparr>)) to_rename w =
      apply_loop E c d (intention_map_of (h\<lparr>IntendedFor := None\<rparr>)) to_rename w"
    if "k \<notin> fst ` set to_rename"
  proof -
    have "\<forall>k' \<in> fst ` set to_rename.
        spec_intentions (h\<lparr>IntendedFor := Some [k \<mapsto> x]\<rparr>) k' =
        spec_intentions (h\<lparr>IntendedFor := None\<rparr>) k'"
      using that by (auto simp: spec_intentions_def)
    from apply_changes_cong[OF this] show ?thesis .
  qed
  have 3: "(k', v') \<in> set to_rename"
    if "ApplyHeuristic c' k' v' d' i' \<in> set (trace (apply_changes E c d h to_rename w))"
    for c' k' v' d' i'
  proof -
    have "ApplyHeuristic c' k' v' d' i' \<in> set (apply_calls (trace (apply_changes E c d h to_rename w)))"
      using that by (simp add: apply_calls_def)
    then have "ApplyHeuristic c' k' v' d' i' \<in> set (map (spec_call c d h) to_rename)"
      using apply_changes_run[of E c d h to_rename w] set_mono_prefix by fastforce
    then obtain kv where kv: "kv \<in> set to_rename" "ApplyHeuristic c' k' v' d' i' = spec_call c d h kv"
      by auto
    show ?thesis using spec_call_inj[OF kv(2)] kv(1) by simp
  qed
  show ?thesis using 1 2 3 by (simp add: apply_changes_run)
qed

theorem unused_intentions_ignored_witness:
  "''key9'' \<notin> fst ` set demo_items \<and>
   apply_changes demo_env 7 True
     (demo_heuristic\<lparr>IntendedFor := Some ([''key1'' \<mapsto> [''ref1''], ''key9'' \<mapsto> [''refX'']])\<rparr>)
     demo_items 0 =
   (Inr (),
    [LogInfo ''Updating IntendedFor fields based on heuristic file'',
     ApplyHeuristic 7 ''key1'' [''seqA''] True [''ref1''],
     ApplyHeuristic 7 ''key2'' [''seqB'', ''seqC''] True []], 0)"
proof -
  have nk: "''key9'' \<notin> fst ` set demo_items"
    by (simp add: demo_items_def)
  have e: "apply_changes demo_env 7 True
      (demo_heuristic\<lparr>IntendedFor := Some [''key1'' \<mapsto> [''ref1'']]\<rparr>) demo_items 0 =
    (Inr (),
     [LogInfo ''Updating IntendedFor fields based on heuristic file'',
      ApplyHeuristic 7 ''key1'' [''seqA''] True [''ref1''],
      ApplyHeuristic 7 ''key2'' [''seqB'', ''seqC''] True []], 0)"
    by (simp add: apply_changes_def demo_heuristic_def demo_items_def demo_env_def
        defaultdict_getitem_def dict_update_def)
  have "apply_changes demo_env 7 True
      (demo_heuristic\<lparr>IntendedFor := Some ([''key1'' \<mapsto> [''ref1''], ''key9'' \<mapsto> [''refX'']])\<rparr>)
      demo_items 0 =
    apply_changes demo_env 7 True
      (demo_heuristic\<lparr>IntendedFor := Some [''key1'' \<mapsto> [''ref1'']]\<rparr>) demo_items 0"
    using unused_intentions_ignored[where k = "''key9''" and to_rename = demo_items
        and E = demo_env and c = 7 and d = True and h = demo_heuristic
        and m = "[''key1'' \<mapsto> [''ref1'']]" and x = "[''refX'']" and w = 0] nk
    by blast
  then show ?thesis using nk e by simp
qed

end
